theory Spec2Isabelle
  imports Complex_Main
begin

section \<open>Python values\<close>

text \<open>
  A Python \<open>str\<close> is a sequence of Unicode code points; the literals of \<open>homework.py\<close>
  are Cyrillic, so a string is modelled as the list of its code points. \<open>ascii\<close> embeds
  an ASCII literal.

  Python numbers (\<open>int\<close> and \<open>float\<close>) are modelled as exact reals: the arithmetic of
  the model is the exact arithmetic that the binary64 operations approximate. Rounding
  error, overflow, infinities and NaN are outside the model. The one arithmetic
  exception of exact arithmetic, division by zero, is a branch of the model.
\<close>

type_synonym str = "nat list"

definition ascii :: "string \<Rightarrow> str" where
  "ascii s = map of_char s"

datatype error =
    ZeroDivisionError
  | NotImplementedError
  | TypeError
  | ValueError str

definition and_then :: "error + 'a \<Rightarrow> ('a \<Rightarrow> error + 'b) \<Rightarrow> error + 'b" where
  "and_then r f = (case r of Inl e \<Rightarrow> Inl e | Inr v \<Rightarrow> f v)"

text \<open>\<open>x / y\<close> and \<open>x // y\<close> of Python: both raise on a zero divisor.\<close>

definition truediv :: "real \<Rightarrow> real \<Rightarrow> error + real" where
  "truediv x y = (if y = 0 then Inl ZeroDivisionError else Inr (x / y))"

definition floordiv :: "real \<Rightarrow> real \<Rightarrow> error + real" where
  "floordiv x y = (if y = 0 then Inl ZeroDivisionError else Inr (of_int \<lfloor>x / y\<rfloor>))"

section \<open>InfoMessage\<close>

record InfoMessage =
  training_type :: str
  duration :: real
  distance :: real
  speed :: real
  calories :: real

section \<open>Training and its subclasses\<close>

text \<open>
  One constructor per class of the hierarchy; the constructor is the dynamic class of
  the object, so a method that a subclass overrides is a case of the function.
\<close>

datatype training =
    Training (action: real) (duration_h: real) (weight_kg: real)
  | Running (action: real) (duration_h: real) (weight_kg: real)
  | SportsWalking (action: real) (duration_h: real) (weight_kg: real) (height_cm: real)
  | Swimming (action: real) (duration_h: real) (weight_kg: real)
      (length_pool_m: real) (count_pool: real)

text \<open>Class attributes. \<open>LEN_STEP\<close> is looked up on the dynamic class: Swimming overrides it.\<close>

fun LEN_STEP :: "training \<Rightarrow> real" where
  "LEN_STEP (Swimming _ _ _ _ _) = 1.38"
| "LEN_STEP _ = 0.65"

definition M_IN_KM :: real where
  "M_IN_KM = 1000"

definition MIN_IN_HR :: real where
  "MIN_IN_HR = 60"

definition SPEED_MAIN_CALORIE_COEFFICIENT :: real where
  "SPEED_MAIN_CALORIE_COEFFICIENT = 18"

definition SPEED_MEAN_CALORIE_DEDUCTED :: real where
  "SPEED_MEAN_CALORIE_DEDUCTED = 20"

definition LESS_IMPACT_WEIGHT_CALORIE :: real where
  "LESS_IMPACT_WEIGHT_CALORIE = 0.035"

definition MAIN_INFLUENCE_WEIGHT_CALORIE :: real where
  "MAIN_INFLUENCE_WEIGHT_CALORIE = 0.029"

definition EXPONENT :: nat where
  "EXPONENT = 2"

definition ACTUAL_EFFECT_SWIM_WEIGHT :: real where
  "ACTUAL_EFFECT_SWIM_WEIGHT = 2"

definition APPROACH_MAX_SPEED :: real where
  "APPROACH_MAX_SPEED = 1.1"

definition get_distance :: "training \<Rightarrow> error + real" where
  "get_distance t = truediv (action t * LEN_STEP t) M_IN_KM"

fun get_mean_speed :: "training \<Rightarrow> error + real" where
  "get_mean_speed (Swimming a d w l c) =
     and_then (truediv (l * c) M_IN_KM) (\<lambda>q. truediv q d)"
| "get_mean_speed t =
     and_then (get_distance t) (\<lambda>dist. truediv dist (duration_h t))"

fun get_spent_calories :: "training \<Rightarrow> error + real" where
  "get_spent_calories (Training a d w) = Inl NotImplementedError"
| "get_spent_calories (Running a d w) =
     and_then (get_mean_speed (Running a d w)) (\<lambda>ms.
     and_then (truediv ((SPEED_MAIN_CALORIE_COEFFICIENT * ms
                          - SPEED_MEAN_CALORIE_DEDUCTED) * w) M_IN_KM) (\<lambda>q.
     Inr (q * d * MIN_IN_HR)))"
| "get_spent_calories (SportsWalking a d w h) =
     and_then (get_mean_speed (SportsWalking a d w h)) (\<lambda>ms.
     and_then (floordiv (ms ^ EXPONENT) h) (\<lambda>q.
     Inr ((LESS_IMPACT_WEIGHT_CALORIE * w
             + q * MAIN_INFLUENCE_WEIGHT_CALORIE * w) * d * MIN_IN_HR)))"
| "get_spent_calories (Swimming a d w l c) =
     and_then (get_mean_speed (Swimming a d w l c)) (\<lambda>ms.
     Inr ((ms + APPROACH_MAX_SPEED) * ACTUAL_EFFECT_SWIM_WEIGHT * w))"

text \<open>\<open>type(self).__name__\<close>\<close>

fun class_name :: "training \<Rightarrow> str" where
  "class_name (Training _ _ _) = ascii ''Training''"
| "class_name (Running _ _ _) = ascii ''Running''"
| "class_name (SportsWalking _ _ _ _) = ascii ''SportsWalking''"
| "class_name (Swimming _ _ _ _ _) = ascii ''Swimming''"

text \<open>The arguments of the \<open>InfoMessage\<close> constructor are evaluated left to right.\<close>

definition show_training_info :: "training \<Rightarrow> error + InfoMessage" where
  "show_training_info t =
     and_then (get_distance t) (\<lambda>dist.
     and_then (get_mean_speed t) (\<lambda>sp.
     and_then (get_spent_calories t) (\<lambda>cal.
     Inr \<lparr>training_type = class_name t, duration = duration_h t,
          distance = dist, speed = sp, calories = cal\<rparr>)))"

section \<open>Formatting\<close>

text \<open>
  The format specification \<open>.3f\<close>: fixed point with three digits after the point, the
  value rounded to the nearest multiple of 0.001 and a tie to the even one; a minus sign
  for a negative value, also when it rounds to zero.
\<close>

definition round_half_even :: "real \<Rightarrow> int" where
  "round_half_even y =
     (let n = \<lfloor>y\<rfloor>; f = y - of_int n
      in if f < 1 / 2 then n
         else if 1 / 2 < f then n + 1
         else if even n then n else n + 1)"

fun digit_chars :: "nat \<Rightarrow> str" where
  "digit_chars n =
     (if n < 10 then [48 + n] else digit_chars (n div 10) @ [48 + n mod 10])"

definition format_3f :: "real \<Rightarrow> str" where
  "format_3f x =
     (let n = nat (round_half_even (\<bar>x\<bar> * 1000))
      in (if x < 0 then [45] else [])
         @ digit_chars (n div 1000)
         @ [46]
         @ [48 + n div 100 mod 10, 48 + n div 10 mod 10, 48 + n mod 10])"

text \<open>
  The literal parts of the f-string of \<open>get_message\<close>, as code points (the text is
  Russian: "Tip trenirovki: ", "Dlitel'nost': ", " ch.; ", "Distantsiya: ", " km; ",
  "Sr. skorost': ", " km/ch; ", "Potracheno kkal: " in transliteration).
\<close>

definition msg_type :: str where
  "msg_type = [1058, 1080, 1087, 32, 1090, 1088, 1077, 1085, 1080, 1088, 1086, 1074,
     1082, 1080, 58, 32]"

definition msg_duration :: str where
  "msg_duration = [1044, 1083, 1080, 1090, 1077, 1083, 1100, 1085, 1086, 1089, 1090,
     1100, 58, 32]"

definition msg_hours :: str where
  "msg_hours = [32, 1095, 46, 59, 32]"

definition msg_distance :: str where
  "msg_distance = [1044, 1080, 1089, 1090, 1072, 1085, 1094, 1080, 1103, 58, 32]"

definition msg_km :: str where
  "msg_km = [32, 1082, 1084, 59, 32]"

definition msg_speed :: str where
  "msg_speed = [1057, 1088, 46, 32, 1089, 1082, 1086, 1088, 1086, 1089, 1090, 1100,
     58, 32]"

definition msg_kmh :: str where
  "msg_kmh = [32, 1082, 1084, 47, 1095, 59, 32]"

definition msg_calories :: str where
  "msg_calories = [1055, 1086, 1090, 1088, 1072, 1095, 1077, 1085, 1086, 32, 1082,
     1082, 1072, 1083, 58, 32]"

definition get_message :: "InfoMessage \<Rightarrow> str" where
  "get_message m =
     msg_type @ training_type m @ ascii ''; ''
     @ msg_duration @ format_3f (duration m) @ msg_hours
     @ msg_distance @ format_3f (distance m) @ msg_km
     @ msg_speed @ format_3f (speed m) @ msg_kmh
     @ msg_calories @ format_3f (calories m) @ ascii ''.''"

section \<open>read_package and main\<close>

text \<open>
  The values of the dictionary are the three classes; calling a class with \<open>*data\<close>
  binds the list to the positional parameters of \<open>__init__\<close> and raises \<open>TypeError\<close>
  when their number differs.
\<close>

datatype training_class = Running_class | SportsWalking_class | Swimming_class

fun new_training :: "training_class \<Rightarrow> real list \<Rightarrow> error + training" where
  "new_training Running_class data =
     (case data of [a, d, w] \<Rightarrow> Inr (Running a d w) | _ \<Rightarrow> Inl TypeError)"
| "new_training SportsWalking_class data =
     (case data of [a, d, w, h] \<Rightarrow> Inr (SportsWalking a d w h) | _ \<Rightarrow> Inl TypeError)"
| "new_training Swimming_class data =
     (case data of [a, d, w, l, c] \<Rightarrow> Inr (Swimming a d w l c) | _ \<Rightarrow> Inl TypeError)"

definition detrmining_type_training :: "str \<rightharpoonup> training_class" where
  "detrmining_type_training =
     [ascii ''RUN'' \<mapsto> Running_class,
      ascii ''WLK'' \<mapsto> SportsWalking_class,
      ascii ''SWM'' \<mapsto> Swimming_class]"

text \<open>
  The message of the \<open>ValueError\<close> ("Treker poka ne mozhet schitat' dannyi tip
  trenirovki": the tracker cannot read this type of training yet).
\<close>

definition unknown_type_message :: str where
  "unknown_type_message = [1058, 1088, 1077, 1082, 1077, 1088, 32, 1087, 1086, 1082,
     1072, 32, 1085, 1077, 32, 1084, 1086, 1078, 1077, 1090, 32, 1089, 1095, 1080,
     1090, 1072, 1090, 1100, 32, 1076, 1072, 1085, 1085, 1099, 1081, 32, 1090, 1080,
     1087, 32, 1090, 1088, 1077, 1085, 1080, 1088, 1086, 1074, 1082, 1080]"

definition read_package :: "str \<Rightarrow> real list \<Rightarrow> error + training" where
  "read_package workout_type data =
     (case detrmining_type_training workout_type of
        None \<Rightarrow> Inl (ValueError unknown_type_message)
      | Some cls \<Rightarrow> new_training cls data)"

text \<open>\<open>main\<close> prints one line; the model returns the text it prints.\<close>

definition main :: "training \<Rightarrow> error + str" where
  "main t = and_then (show_training_info t) (\<lambda>info. Inr (get_message info))"

section \<open>Auxiliary facts\<close>

lemma and_then_Inr: "and_then (Inr v) f = f v"
  by (simp add: and_then_def)

lemma and_then_Inl: "and_then (Inl e) f = Inl e"
  by (simp add: and_then_def)

lemma truediv_M_IN_KM: "truediv x M_IN_KM = Inr (x / 1000)"
  by (simp add: truediv_def M_IN_KM_def)

lemma get_distance_eq: "get_distance t = Inr (action t * LEN_STEP t / 1000)"
  by (simp add: get_distance_def truediv_def M_IN_KM_def)

text \<open>
  The mean speed of each class in closed form. The only failure is the division by a
  zero duration.
\<close>

lemma get_mean_speed_base:
  "get_mean_speed (Training a d w) =
     (if d = 0 then Inl ZeroDivisionError else Inr (a * 0.65 / 1000 / d))"
  "get_mean_speed (Running a d w) =
     (if d = 0 then Inl ZeroDivisionError else Inr (a * 0.65 / 1000 / d))"
  "get_mean_speed (SportsWalking a d w h) =
     (if d = 0 then Inl ZeroDivisionError else Inr (a * 0.65 / 1000 / d))"
  by (simp_all add: get_distance_eq and_then_Inr truediv_def)

lemma get_mean_speed_Swimming:
  "get_mean_speed (Swimming a d w l c) =
     (if d = 0 then Inl ZeroDivisionError else Inr (l * c / 1000 / d))"
  by (simp add: truediv_def M_IN_KM_def and_then_def)

lemma recognized_codes:
  "detrmining_type_training (ascii ''RUN'') = Some Running_class"
  "detrmining_type_training (ascii ''WLK'') = Some SportsWalking_class"
  "detrmining_type_training (ascii ''SWM'') = Some Swimming_class"
  by (simp_all add: detrmining_type_training_def ascii_def)

lemma unrecognized_code:
  "workout_type \<notin> {ascii ''RUN'', ascii ''WLK'', ascii ''SWM''} \<Longrightarrow>
     detrmining_type_training workout_type = None"
  by (simp add: detrmining_type_training_def)

text \<open>
  With a recognized code, \<open>read_package\<close> returns a record exactly when the list has
  the number of entries that the constructor of the class takes.
\<close>

lemma read_package_arity:
  "read_package (ascii ''RUN'') data =
     (case data of [a, d, w] \<Rightarrow> Inr (Running a d w) | _ \<Rightarrow> Inl TypeError)"
  "read_package (ascii ''WLK'') data =
     (case data of [a, d, w, h] \<Rightarrow> Inr (SportsWalking a d w h) | _ \<Rightarrow> Inl TypeError)"
  "read_package (ascii ''SWM'') data =
     (case data of [a, d, w, l, c] \<Rightarrow> Inr (Swimming a d w l c) | _ \<Rightarrow> Inl TypeError)"
  by (simp_all add: read_package_def recognized_codes)

lemma new_training_Inr:
  "new_training cls data = Inr t \<Longrightarrow> is_Running t \<or> is_SportsWalking t \<or> is_Swimming t"
  by (cases cls) (auto split: list.splits)

lemma read_package_Inr:
  "read_package workout_type data = Inr t \<Longrightarrow>
     is_Running t \<or> is_SportsWalking t \<or> is_Swimming t"
  by (auto simp: read_package_def split: option.splits dest: new_training_Inr)

lemma get_spent_calories_implemented:
  "\<not> is_Training t \<Longrightarrow> get_spent_calories t \<noteq> Inl NotImplementedError"
  by (cases t)
     (simp_all add: get_mean_speed_base get_mean_speed_Swimming and_then_Inr and_then_Inl
        floordiv_def truediv_M_IN_KM del: get_mean_speed.simps)

text \<open>The shape of a number formatted with \<open>.3f\<close>.\<close>

lemma digit_chars_nonempty: "digit_chars n \<noteq> []"
  by (subst digit_chars.simps) simp

lemma digit_chars_digits: "set (digit_chars n) \<subseteq> {48..57}"
proof (induction n rule: digit_chars.induct)
  case (1 n)
  show ?case
  proof (cases "n < 10")
    case True
    then show ?thesis by (subst digit_chars.simps) simp
  next
    case False
    have "n mod 10 < 10" by simp
    then have "48 + n mod 10 \<in> {48..57}" by (simp del: mod_less_divisor)
    with False 1 show ?thesis by (subst digit_chars.simps) simp
  qed
qed

lemma format_3f_shape:
  "\<exists>sign ip d1 d2 d3.
     format_3f x = sign @ ip @ [46, d1, d2, d3] \<and>
     (sign = [] \<or> sign = [45]) \<and> ip \<noteq> [] \<and>
     set (ip @ [d1, d2, d3]) \<subseteq> {48..57}"
proof -
  define n where "n = nat (round_half_even (\<bar>x\<bar> * 1000))"
  define sign :: str where "sign = (if x < 0 then [45] else [])"
  define ip where "ip = digit_chars (n div 1000)"
  have d: "48 + k mod 10 \<in> {48..57}" for k :: nat
  proof -
    have "k mod 10 < 10" by simp
    then show ?thesis by (simp del: mod_less_divisor)
  qed
  have "format_3f x = sign @ ip @ [46, 48 + n div 100 mod 10, 48 + n div 10 mod 10, 48 + n mod 10]"
    by (simp add: format_3f_def Let_def n_def sign_def ip_def)
  moreover have "sign = [] \<or> sign = [45]"
    by (simp add: sign_def)
  moreover have "ip \<noteq> []"
    by (simp add: ip_def digit_chars_nonempty)
  moreover have "set (ip @ [48 + n div 100 mod 10, 48 + n div 10 mod 10, 48 + n mod 10]) \<subseteq> {48..57}"
    using digit_chars_digits [of "n div 1000"] d [of "n div 100"] d [of "n div 10"] d [of n]
    by (simp add: ip_def)
  ultimately show ?thesis by blast
qed

section \<open>Calories of the three variants\<close>

text \<open>
  C1. For every Running record with action count \<open>a\<close>, duration \<open>d\<close> and weight \<open>w\<close>,
  \<open>get_spent_calories\<close> returns \<open>(18 * meanSpeed - 20) * w / 1000 * d * 60\<close> with
  \<open>meanSpeed = (a * 0.65 / 1000) / d\<close>; where the formula divides by a zero duration,
  the method raises \<open>ZeroDivisionError\<close>. The package \<open>("RUN", [15000, 1, 75])\<close> yields
  the summary of type "Running" with distance and mean speed 9.75, printed as 9.750, and
  699.75 kcal, printed as 699.750.
\<close>

theorem running_spent_calories:
  "get_spent_calories (Running a d w) =
     (if d = 0 then Inl ZeroDivisionError
      else Inr ((18 * (a * 0.65 / 1000 / d) - 20) * w / 1000 * d * 60)) \<and>
   and_then (read_package (ascii ''RUN'') [15000, 1, 75]) show_training_info =
     Inr \<lparr>training_type = ascii ''Running'', duration = 1, distance = 9.75,
          speed = 9.75, calories = 699.75\<rparr> \<and>
   format_3f 9.75 = ascii ''9.750'' \<and> format_3f 699.75 = ascii ''699.750''"
proof (intro conjI)
  show "get_spent_calories (Running a d w) =
     (if d = 0 then Inl ZeroDivisionError
      else Inr ((18 * (a * 0.65 / 1000 / d) - 20) * w / 1000 * d * 60))"
    by (simp add: get_mean_speed_base and_then_Inr and_then_Inl truediv_M_IN_KM
        SPEED_MAIN_CALORIE_COEFFICIENT_def SPEED_MEAN_CALORIE_DEDUCTED_def MIN_IN_HR_def
        del: get_mean_speed.simps)
  have "read_package (ascii ''RUN'') [15000, 1, 75] = Inr (Running 15000 1 75)"
    by (simp add: read_package_def detrmining_type_training_def ascii_def)
  then show "and_then (read_package (ascii ''RUN'') [15000, 1, 75]) show_training_info =
     Inr \<lparr>training_type = ascii ''Running'', duration = 1, distance = 9.75,
          speed = 9.75, calories = 699.75\<rparr>"
    by (simp add: and_then_Inr show_training_info_def get_distance_eq get_mean_speed_base
        truediv_M_IN_KM SPEED_MAIN_CALORIE_COEFFICIENT_def SPEED_MEAN_CALORIE_DEDUCTED_def
        MIN_IN_HR_def del: get_mean_speed.simps)
  show "format_3f 9.75 = ascii ''9.750''"
    by (simp add: format_3f_def round_half_even_def ascii_def)
  show "format_3f 699.75 = ascii ''699.750''"
    by (simp add: format_3f_def round_half_even_def ascii_def)
qed


text \<open>
  C3. For every Swimming record with pool length \<open>l\<close>, lap count \<open>c\<close> and duration
  \<open>d \<noteq> 0\<close>, \<open>get_mean_speed\<close> returns \<open>l * c / 1000 / d\<close>, overriding the formula of
  the base class (a zero duration raises \<open>ZeroDivisionError\<close>); the package
  \<open>("SWM", [720, 1, 80, 25, 40])\<close> has mean speed 1, printed as 1.000.
\<close>

theorem swimming_mean_speed:
  "get_mean_speed (Swimming a d w l c) =
     (if d = 0 then Inl ZeroDivisionError else Inr (l * c / 1000 / d)) \<and>
   and_then (read_package (ascii ''SWM'') [720, 1, 80, 25, 40]) get_mean_speed = Inr 1 \<and>
   format_3f 1 = ascii ''1.000''"
proof (intro conjI)
  show "get_mean_speed (Swimming a d w l c) =
     (if d = 0 then Inl ZeroDivisionError else Inr (l * c / 1000 / d))"
    by (rule get_mean_speed_Swimming)
  have "read_package (ascii ''SWM'') [720, 1, 80, 25, 40] = Inr (Swimming 720 1 80 25 40)"
    by (simp add: read_package_def detrmining_type_training_def ascii_def)
  then show "and_then (read_package (ascii ''SWM'') [720, 1, 80, 25, 40]) get_mean_speed = Inr 1"
    by (simp add: and_then_Inr get_mean_speed_Swimming del: get_mean_speed.simps)
  show "format_3f 1 = ascii ''1.000''"
    by (simp add: format_3f_def round_half_even_def ascii_def)
qed

text \<open>
  C4. For every Swimming record with weight \<open>w\<close>, \<open>get_spent_calories\<close> returns
  \<open>(get_mean_speed() + 1.1) * 2 * w\<close>, and raises what \<open>get_mean_speed\<close> raises; the
  package \<open>("SWM", [720, 1, 80, 25, 40])\<close> burns 336 kcal, printed as 336.000.
\<close>

theorem swimming_spent_calories:
  "get_spent_calories (Swimming a d w l c) =
     and_then (get_mean_speed (Swimming a d w l c)) (\<lambda>ms. Inr ((ms + 1.1) * 2 * w)) \<and>
   get_spent_calories (Swimming a d w l c) =
     (if d = 0 then Inl ZeroDivisionError else Inr ((l * c / 1000 / d + 1.1) * 2 * w)) \<and>
   and_then (read_package (ascii ''SWM'') [720, 1, 80, 25, 40]) get_spent_calories = Inr 336 \<and>
   format_3f 336 = ascii ''336.000''"
proof (intro conjI)
  show "get_spent_calories (Swimming a d w l c) =
     and_then (get_mean_speed (Swimming a d w l c)) (\<lambda>ms. Inr ((ms + 1.1) * 2 * w))"
    by (simp add: APPROACH_MAX_SPEED_def ACTUAL_EFFECT_SWIM_WEIGHT_def
        del: get_mean_speed.simps)
  show g: "get_spent_calories (Swimming a d w l c) =
     (if d = 0 then Inl ZeroDivisionError else Inr ((l * c / 1000 / d + 1.1) * 2 * w))"
    for a d w l c
    by (simp add: get_mean_speed_Swimming and_then_Inr and_then_Inl APPROACH_MAX_SPEED_def
        ACTUAL_EFFECT_SWIM_WEIGHT_def del: get_mean_speed.simps)
  have "read_package (ascii ''SWM'') [720, 1, 80, 25, 40] = Inr (Swimming 720 1 80 25 40)"
    by (simp add: read_package_def detrmining_type_training_def ascii_def)
  then show "and_then (read_package (ascii ''SWM'') [720, 1, 80, 25, 40]) get_spent_calories
      = Inr 336"
    by (simp add: and_then_Inr g del: get_spent_calories.simps)
  show "format_3f 336 = ascii ''336.000''"
    by (simp add: format_3f_def round_half_even_def ascii_def)
qed

section \<open>Distance\<close>

text \<open>
  C5. For a record of any of the three variants (and of the base class) with action
  count \<open>a\<close>, \<open>get_distance\<close> returns \<open>a * stepLength / 1000\<close>, where the step length is
  0.65 for Running and SportsWalking and 1.38 for Swimming.
\<close>

theorem get_distance_per_variant:
  "get_distance (Running a d w) = Inr (a * 0.65 / 1000) \<and>
   get_distance (SportsWalking a d w h) = Inr (a * 0.65 / 1000) \<and>
   get_distance (Swimming a d w l c) = Inr (a * 1.38 / 1000) \<and>
   get_distance (Training a d w) = Inr (a * 0.65 / 1000)"
  by (simp add: get_distance_eq)

section \<open>Dispatch\<close>

text \<open>
  C6. \<open>read_package\<close> raises \<open>ValueError\<close> with its fixed message for every code
  outside "RUN", "WLK", "SWM" (for "XYZ", say), whatever the data; for each of the three
  codes it returns the record of the corresponding class, built from the entries of the
  list in positional order.
\<close>

theorem read_package_dispatch:
  "(workout_type \<notin> {ascii ''RUN'', ascii ''WLK'', ascii ''SWM''} \<longrightarrow>
      read_package workout_type data = Inl (ValueError unknown_type_message)) \<and>
   read_package (ascii ''XYZ'') data = Inl (ValueError unknown_type_message) \<and>
   unknown_type_message \<noteq> [] \<and>
   read_package (ascii ''RUN'') [a, d, w] = Inr (Running a d w) \<and>
   read_package (ascii ''WLK'') [a, d, w, h] = Inr (SportsWalking a d w h) \<and>
   read_package (ascii ''SWM'') [a, d, w, l, c] = Inr (Swimming a d w l c)"
proof -
  have "ascii ''XYZ'' \<notin> {ascii ''RUN'', ascii ''WLK'', ascii ''SWM''}"
    by (simp add: ascii_def)
  then show ?thesis
    by (simp add: read_package_def unrecognized_code recognized_codes
        unknown_type_message_def)
qed

theorem read_package_dispatch_witness:
  "ascii ''ABC'' \<notin> {ascii ''RUN'', ascii ''WLK'', ascii ''SWM''} \<and>
   read_package (ascii ''ABC'') [1, 2, 3] = Inl (ValueError unknown_type_message)"
proof -
  have h: "ascii ''ABC'' \<notin> {ascii ''RUN'', ascii ''WLK'', ascii ''SWM''}"
    by (simp add: ascii_def)
  with read_package_dispatch [of "ascii ''ABC''" "[1, 2, 3]"] show ?thesis
    by blast
qed

section \<open>The message\<close>

text \<open>
  C7, as the code has it. For every summary \<open>get_message\<close> produces the fixed template
  of the source, whose literal text is Russian ("Tip trenirovki: \<dots>; Dlitel'nost': \<dots>
  ch.; Distantsiya: \<dots> km; Sr. skorost': \<dots> km/ch; Potracheno kkal: \<dots>." in
  transliteration, given below by code points), with the type name and the four numbers
  in this order; every number is rendered as an optional minus sign, a nonempty run of
  digits, a point and exactly three digits, whatever the precision of the value.
\<close>

theorem get_message_template:
  "get_message m =
     [1058, 1080, 1087, 32, 1090, 1088, 1077, 1085, 1080, 1088, 1086, 1074, 1082, 1080, 58, 32]
     @ training_type m
     @ [59, 32, 1044, 1083, 1080, 1090, 1077, 1083, 1100, 1085, 1086, 1089, 1090, 1100, 58, 32]
     @ format_3f (duration m)
     @ [32, 1095, 46, 59, 32, 1044, 1080, 1089, 1090, 1072, 1085, 1094, 1080, 1103, 58, 32]
     @ format_3f (distance m)
     @ [32, 1082, 1084, 59, 32, 1057, 1088, 46, 32, 1089, 1082, 1086, 1088, 1086, 1089, 1090,
        1100, 58, 32]
     @ format_3f (speed m)
     @ [32, 1082, 1084, 47, 1095, 59, 32, 1055, 1086, 1090, 1088, 1072, 1095, 1077, 1085, 1086,
        32, 1082, 1082, 1072, 1083, 58, 32]
     @ format_3f (calories m)
     @ [46] \<and>
   (\<exists>sign ip d1 d2 d3.
      format_3f x = sign @ ip @ [46, d1, d2, d3] \<and>
      (sign = [] \<or> sign = [45]) \<and> ip \<noteq> [] \<and>
      set (ip @ [d1, d2, d3]) \<subseteq> {48..57}) \<and>
   format_3f 2 = ascii ''2.000'' \<and>
   format_3f (1 / 3) = ascii ''0.333'' \<and>
   format_3f 0.0625 = ascii ''0.062'' \<and>
   format_3f 1234.5678 = ascii ''1234.568''"
proof (intro conjI)
  show "get_message m =
     [1058, 1080, 1087, 32, 1090, 1088, 1077, 1085, 1080, 1088, 1086, 1074, 1082, 1080, 58, 32]
     @ training_type m
     @ [59, 32, 1044, 1083, 1080, 1090, 1077, 1083, 1100, 1085, 1086, 1089, 1090, 1100, 58, 32]
     @ format_3f (duration m)
     @ [32, 1095, 46, 59, 32, 1044, 1080, 1089, 1090, 1072, 1085, 1094, 1080, 1103, 58, 32]
     @ format_3f (distance m)
     @ [32, 1082, 1084, 59, 32, 1057, 1088, 46, 32, 1089, 1082, 1086, 1088, 1086, 1089, 1090,
        1100, 58, 32]
     @ format_3f (speed m)
     @ [32, 1082, 1084, 47, 1095, 59, 32, 1055, 1086, 1090, 1088, 1072, 1095, 1077, 1085, 1086,
        32, 1082, 1082, 1072, 1083, 58, 32]
     @ format_3f (calories m)
     @ [46]"
    by (simp add: get_message_def msg_type_def msg_duration_def msg_hours_def
        msg_distance_def msg_km_def msg_speed_def msg_kmh_def msg_calories_def ascii_def)
  show "\<exists>sign ip d1 d2 d3.
      format_3f x = sign @ ip @ [46, d1, d2, d3] \<and>
      (sign = [] \<or> sign = [45]) \<and> ip \<noteq> [] \<and>
      set (ip @ [d1, d2, d3]) \<subseteq> {48..57}"
    by (rule format_3f_shape)
  show "format_3f 2 = ascii ''2.000''"
    by (simp add: format_3f_def round_half_even_def ascii_def)
  show "format_3f (1 / 3) = ascii ''0.333''"
    by (simp add: format_3f_def round_half_even_def ascii_def)
  show "format_3f 0.0625 = ascii ''0.062''"
    by (simp add: format_3f_def round_half_even_def ascii_def)
  show "format_3f 1234.5678 = ascii ''1234.568''"
    by (simp add: format_3f_def round_half_even_def ascii_def)
qed

text \<open>
  The English template is not what \<open>get_message\<close> produces: the summary of the Running
  package differs from the English line already in its first character.
\<close>

theorem get_message_english_template_counterexample:
  "get_message \<lparr>training_type = ascii ''Running'', duration = 1, distance = 9.75,
      speed = 9.75, calories = 699.75\<rparr> \<noteq>
   ascii ''Workout type: Running; Duration: 1.000 h; Distance: 9.750 km; Mean speed: 9.750 km/h; Calories burned: 699.750.''"
  by (simp add: get_message_def msg_type_def ascii_def)

section \<open>The base class\<close>

text \<open>
  C8. \<open>get_spent_calories\<close> on an object of the base class \<open>Training\<close> always raises
  \<open>NotImplementedError\<close>, and no record that \<open>read_package\<close> returns raises it, neither
  in \<open>get_spent_calories\<close> nor in \<open>show_training_info\<close> or \<open>main\<close>.
\<close>

theorem base_not_implemented:
  "get_spent_calories (Training a d w) = Inl NotImplementedError \<and>
   (read_package workout_type data = Inr t \<longrightarrow>
      get_spent_calories t \<noteq> Inl NotImplementedError \<and>
      show_training_info t \<noteq> Inl NotImplementedError \<and>
      main t \<noteq> Inl NotImplementedError)"
proof (intro conjI impI)
  show "get_spent_calories (Training a d w) = Inl NotImplementedError"
    by simp
next
  assume "read_package workout_type data = Inr t"
  then have nb: "\<not> is_Training t"
    by (auto dest: read_package_Inr simp: training.disc_eq_case split: training.splits)
  then show c: "get_spent_calories t \<noteq> Inl NotImplementedError"
    by (rule get_spent_calories_implemented)
  have ms: "get_mean_speed t \<noteq> Inl NotImplementedError"
    by (cases t) (simp_all add: get_mean_speed_base get_mean_speed_Swimming
        del: get_mean_speed.simps)
  show s: "show_training_info t \<noteq> Inl NotImplementedError"
    using c ms
    by (auto simp: show_training_info_def get_distance_eq and_then_def split: sum.splits)
  show "main t \<noteq> Inl NotImplementedError"
    using s by (auto simp: main_def and_then_def split: sum.splits)
qed

theorem base_not_implemented_witness:
  "read_package (ascii ''RUN'') [15000, 1, 75] = Inr (Running 15000 1 75) \<and>
   get_spent_calories (Running 15000 1 75) \<noteq> Inl NotImplementedError \<and>
   get_spent_calories (Training 15000 1 75) = Inl NotImplementedError"
proof -
  have h: "read_package (ascii ''RUN'') [15000, 1, 75] = Inr (Running 15000 1 75)"
    by (simp add: read_package_def recognized_codes)
  with base_not_implemented [of 15000 1 75 "ascii ''RUN''" "[15000, 1, 75]" "Running 15000 1 75"]
  show ?thesis by blast
qed

section \<open>Swimming: speed and distance\<close>

text \<open>
  C9. Two Swimming records with the same pool length, lap count and duration have the
  same \<open>get_mean_speed\<close>, whatever their action counts and weights.
\<close>

theorem swimming_mean_speed_independent:
  "get_mean_speed (Swimming a1 d w1 l c) = get_mean_speed (Swimming a2 d w2 l c)"
  by simp

text \<open>
  C10. For every Swimming record \<open>get_distance\<close> is \<open>action * 1.38 / 1000\<close> and does
  not depend on the pool length and the lap count; the mean speed is not the distance
  over the duration in general: for \<open>Swimming 720 1 80 25 40\<close> the mean speed is 1 and
  the distance over the duration is 0.9936.
\<close>

theorem swimming_distance_speed_inconsistent:
  "get_distance (Swimming a d w l c) = Inr (a * 1.38 / 1000) \<and>
   get_distance (Swimming a d w l c) = get_distance (Swimming a d w l' c') \<and>
   get_mean_speed (Swimming 720 1 80 25 40) = Inr 1 \<and>
   and_then (get_distance (Swimming 720 1 80 25 40)) (\<lambda>dist. truediv dist 1) = Inr 0.9936 \<and>
   get_mean_speed (Swimming 720 1 80 25 40) \<noteq>
     and_then (get_distance (Swimming 720 1 80 25 40)) (\<lambda>dist. truediv dist 1)"
  by (simp add: get_distance_eq get_mean_speed_Swimming and_then_Inr truediv_def
      del: get_mean_speed.simps)

end
